theory Spec2Isabelle
  imports Complex_Main "HOL-Library.Sublist"
begin

section \<open>Characters and strings of the analysed program\<close>

text \<open>
  The program (\<^verbatim>\<open>src/demo.py\<close>, class \<^verbatim>\<open>SimpleLegalDemystifier\<close>) works on Python
  \<^verbatim>\<open>str\<close> values, sequences of code points.  A \<^typ>\<open>char\<close> stands for one code
  point below 256 (the Latin-1 range, which contains ASCII), so a \<^typ>\<open>string\<close> is a
  Python string over that range and \<^const>\<open>length\<close> is Python's \<^verbatim>\<open>len\<close>.  The
  three character tables below are those of Python 3 on that range: \<^verbatim>\<open>str.isspace\<close>
  (also the regular expression class \<^verbatim>\<open>\s\<close>), the class \<^verbatim>\<open>\w\<close>, the class
  \<^verbatim>\<open>\d\<close>, and \<^verbatim>\<open>str.lower\<close>.
\<close>

definition is_space :: "char \<Rightarrow> bool" where
  "is_space c =
     (let n = (of_char c :: nat)
      in (9 \<le> n \<and> n \<le> 13) \<or> (28 \<le> n \<and> n \<le> 32) \<or> n = 133 \<or> n = 160)"

definition is_digit :: "char \<Rightarrow> bool" where
  "is_digit c = (let n = (of_char c :: nat) in 48 \<le> n \<and> n \<le> 57)"

definition is_word :: "char \<Rightarrow> bool" where
  "is_word c =
     (let n = (of_char c :: nat)
      in (48 \<le> n \<and> n \<le> 57) \<or> (65 \<le> n \<and> n \<le> 90) \<or> n = 95 \<or> (97 \<le> n \<and> n \<le> 122)
         \<or> n = 170 \<or> n = 178 \<or> n = 179 \<or> n = 181 \<or> n = 185 \<or> n = 186
         \<or> (188 \<le> n \<and> n \<le> 190) \<or> (192 \<le> n \<and> n \<le> 214)
         \<or> (216 \<le> n \<and> n \<le> 246) \<or> (248 \<le> n \<and> n \<le> 255))"

definition lower_char :: "char \<Rightarrow> char" where
  "lower_char c =
     (let n = (of_char c :: nat)
      in if (65 \<le> n \<and> n \<le> 90) \<or> (192 \<le> n \<and> n \<le> 214) \<or> (216 \<le> n \<and> n \<le> 222)
         then char_of (n + 32) else c)"

text \<open>
  The upper-case form, for case-insensitive matching.  The two lower-case letters of the range
  whose upper-case forms lie above 255 (U+00B5 and U+00FF) and U+00DF are left as they are.
\<close>

definition upper_char :: "char \<Rightarrow> char" where
  "upper_char c =
     (let n = (of_char c :: nat)
      in if (97 \<le> n \<and> n \<le> 122) \<or> (224 \<le> n \<and> n \<le> 246) \<or> (248 \<le> n \<and> n \<le> 254)
         then char_of (n - 32) else c)"

definition lower :: "string \<Rightarrow> string" where
  "lower s = map lower_char s"

text \<open>\<^verbatim>\<open>s.strip()\<close>: leading and trailing whitespace removed.\<close>

definition strip :: "string \<Rightarrow> string" where
  "strip s = rev (dropWhile is_space (rev (dropWhile is_space s)))"

text \<open>\<^verbatim>\<open>s.startswith(p)\<close> and \<^verbatim>\<open>sub in s\<close>.\<close>

fun startswith :: "string \<Rightarrow> string \<Rightarrow> bool" where
  "startswith [] s = True"
| "startswith (p # ps) [] = False"
| "startswith (p # ps) (c # cs) = (p = c \<and> startswith ps cs)"

fun contains :: "string \<Rightarrow> string \<Rightarrow> bool" where
  "contains sub [] = (sub = [])"
| "contains sub (c # cs) = (startswith sub (c # cs) \<or> contains sub cs)"

text \<open>
  \<^verbatim>\<open>s.split(sep)\<close> for a non-empty separator: the pieces between the non-overlapping
  occurrences of \<^verbatim>\<open>sep\<close>, found from the left; always at least one piece.  (Python raises
  \<^verbatim>\<open>ValueError\<close> on an empty separator; the program only splits on the constants
  \<^verbatim>\<open>'.'\<close>, \<^verbatim>\<open>'\n'\<close> and \<^verbatim>\<open>'\n\n'\<close>.)
\<close>

function split_sep :: "string \<Rightarrow> string \<Rightarrow> string list" where
  "split_sep sep [] = [[]]"
| "split_sep sep (c # cs) =
     (if sep \<noteq> [] \<and> startswith sep (c # cs)
      then [] # split_sep sep (drop (length sep) (c # cs))
      else (case split_sep sep cs of
              [] \<Rightarrow> [[c]]
            | piece # pieces \<Rightarrow> (c # piece) # pieces))"
  by pat_completeness auto
termination
  by (relation "measure (\<lambda>(sep, s). length s)") (auto simp: neq_Nil_conv)

text \<open>\<^verbatim>\<open>s.split()\<close>: the maximal runs of non-whitespace characters.\<close>

function split_ws :: "string \<Rightarrow> string list" where
  "split_ws [] = []"
| "split_ws (c # cs) =
     (if is_space c then split_ws cs
      else (c # takeWhile (\<lambda>x. \<not> is_space x) cs) # split_ws (dropWhile (\<lambda>x. \<not> is_space x) cs))"
  by pat_completeness auto
termination
  by (relation "measure length") (auto simp: length_dropWhile_le less_Suc_eq_le)

text \<open>
  \<^verbatim>\<open>s.replace(old, new)\<close>: every non-overlapping occurrence of \<^verbatim>\<open>old\<close>, found from
  the left, replaced; with an empty \<^verbatim>\<open>old\<close> Python inserts \<^verbatim>\<open>new\<close> before every
  character and at the end.
\<close>

function replace :: "string \<Rightarrow> string \<Rightarrow> string \<Rightarrow> string" where
  "replace old new [] = (if old = [] then new else [])"
| "replace old new (c # cs) =
     (if old = [] then new @ c # replace old new cs
      else if startswith old (c # cs) then new @ replace old new (drop (length old) (c # cs))
      else c # replace old new cs)"
  by pat_completeness auto
termination
  by (relation "measure (\<lambda>(old, new, s). length s)") (auto simp: neq_Nil_conv)

text \<open>\<^verbatim>\<open>sep.join(xs)\<close>.\<close>

fun join :: "string \<Rightarrow> string list \<Rightarrow> string" where
  "join sep [] = []"
| "join sep [x] = x"
| "join sep (x # y # ys) = x @ sep @ join sep (y # ys)"

section \<open>The text normalizer\<close>

text \<open>\<^verbatim>\<open>re.sub(r'\s+', ' ', text)\<close>: every maximal run of whitespace becomes one space.\<close>

function collapse_ws :: "string \<Rightarrow> string" where
  "collapse_ws [] = []"
| "collapse_ws (c # cs) =
     (if is_space c then CHR '' '' # collapse_ws (dropWhile is_space cs)
      else c # collapse_ws cs)"
  by pat_completeness auto
termination
  by (relation "measure length") (auto simp: length_dropWhile_le less_Suc_eq_le)

text \<open>
  The characters that \<^verbatim>\<open>re.sub(r'[^\w\s.,;:!?()-]', '', text)\<close> keeps: word characters,
  whitespace and the nine listed punctuation marks.
\<close>

definition kept_char :: "char \<Rightarrow> bool" where
  "kept_char c = (is_word c \<or> is_space c \<or> c \<in> set ''.,;:!?()-'')"

definition clean_text :: "string \<Rightarrow> string" where
  "clean_text text = strip (filter kept_char (collapse_ws text))"

section \<open>Regular expressions of the term extractor\<close>

text \<open>
  The fragment of Python's \<^verbatim>\<open>re\<close> that the eleven patterns of \<^verbatim>\<open>extract_key_terms\<close>
  use: literal characters, ranges, the classes \<^verbatim>\<open>\w\<close> and \<^verbatim>\<open>\s\<close>, the word boundary
  \<^verbatim>\<open>\b\<close>, concatenation, and the greedy operators \<^verbatim>\<open>*\<close>, \<^verbatim>\<open>+\<close> and \<^verbatim>\<open>?\<close> (groups
  are all non-capturing).
\<close>

datatype atom = Lit char | Range char char | WordChar | SpaceChar

datatype regex = Eps | Atom atom | Boundary | Cat regex regex | Opt regex | Star regex

definition plus :: "regex \<Rightarrow> regex" where
  "plus r = Cat r (Star r)"

fun str :: "string \<Rightarrow> regex" where
  "str [] = Eps"
| "str (c # cs) = Cat (Atom (Lit c)) (str cs)"

fun seq :: "regex list \<Rightarrow> regex" where
  "seq [] = Eps"
| "seq (r # rs) = Cat r (seq rs)"

text \<open>
  One character against one atom.  Under \<^verbatim>\<open>re.IGNORECASE\<close> (the flag \<open>ic\<close>) a literal
  matches a character with the same lower-case form, and a range matches a character when the
  character, its lower-case form or its upper-case form lies in the range.
\<close>

definition in_range :: "char \<Rightarrow> char \<Rightarrow> char \<Rightarrow> bool" where
  "in_range lo hi c = ((of_char lo :: nat) \<le> of_char c \<and> (of_char c :: nat) \<le> of_char hi)"

fun atom_match :: "bool \<Rightarrow> atom \<Rightarrow> char \<Rightarrow> bool" where
  "atom_match ic (Lit l) c = (if ic then lower_char c = lower_char l else c = l)"
| "atom_match ic (Range lo hi) c =
     (in_range lo hi c \<or> (ic \<and> (in_range lo hi (lower_char c) \<or> in_range lo hi (upper_char c))))"
| "atom_match ic WordChar c = is_word c"
| "atom_match ic SpaceChar c = is_space c"

text \<open>
  A position in the subject string: the character before it, if any, and the rest of the
  string.  \<^verbatim>\<open>\b\<close> holds where exactly one of the two neighbours is a word character.
\<close>

type_synonym pos = "char option \<times> string"

fun at_boundary :: "pos \<Rightarrow> bool" where
  "at_boundary (prev, rest) =
     ((case prev of None \<Rightarrow> False | Some c \<Rightarrow> is_word c)
      \<noteq> (case rest of [] \<Rightarrow> False | c # _ \<Rightarrow> is_word c))"

text \<open>
  \<open>ends ic r p\<close> lists the positions at which a match of \<open>r\<close> that starts at \<open>p\<close> can
  end, in the order in which Python's backtracking matcher tries them: a greedy operator
  tries one more repetition before it tries to stop.  The match that \<^verbatim>\<open>re\<close> reports is the
  first of the list.  A repetition that consumes nothing is not repeated.
\<close>

function ends :: "bool \<Rightarrow> regex \<Rightarrow> pos \<Rightarrow> pos list" where
  "ends ic Eps p = [p]"
| "ends ic (Atom a) (prev, []) = []"
| "ends ic (Atom a) (prev, c # cs) = (if atom_match ic a c then [(Some c, cs)] else [])"
| "ends ic Boundary p = (if at_boundary p then [p] else [])"
| "ends ic (Cat r1 r2) p = concat (map (ends ic r2) (ends ic r1 p))"
| "ends ic (Opt r) p = ends ic r p @ [p]"
| "ends ic (Star r) p =
     concat (map (ends ic (Star r))
                 (filter (\<lambda>q. length (snd q) < length (snd p)) (ends ic r p))) @ [p]"
  by pat_completeness auto
termination
  by (relation "inv_image (less_than <*lex*> less_than) (\<lambda>(ic, r, p). (size r, length (snd p)))")
     auto

text \<open>
  \<^verbatim>\<open>re.findall(pattern, text, flags)\<close> for a pattern without capturing groups: the matched
  substrings, found from the left without overlap.  \<open>prev\<close> is the character before the
  current search position.  None of the eleven patterns can match the empty string; for a
  pattern that does, the empty match is recorded and the search moves one character on.
\<close>

function findall_from :: "bool \<Rightarrow> regex \<Rightarrow> char option \<Rightarrow> string \<Rightarrow> string list" where
  "findall_from ic r prev [] = (case ends ic r (prev, []) of [] \<Rightarrow> [] | _ # _ \<Rightarrow> [[]])"
| "findall_from ic r prev (c # cs) =
     (case ends ic r (prev, c # cs) of
        [] \<Rightarrow> findall_from ic r (Some c) cs
      | (prev', rest) # _ \<Rightarrow>
          if length rest < length (c # cs)
          then take (length (c # cs) - length rest) (c # cs) # findall_from ic r prev' rest
          else [] # findall_from ic r (Some c) cs)"
  by pat_completeness auto
termination
  by (relation "measure (\<lambda>(ic, r, prev, s). length s)") auto

definition findall :: "bool \<Rightarrow> regex \<Rightarrow> string \<Rightarrow> string list" where
  "findall ic r text = findall_from ic r None text"

section \<open>The term extractor\<close>

definition legal_patterns :: "regex list" where
  "legal_patterns =
     [seq [Boundary, Atom (Range CHR ''A'' CHR ''Z''), plus (Atom (Range CHR ''a'' CHR ''z'')),
           Star (seq [plus (Atom SpaceChar), Atom (Range CHR ''A'' CHR ''Z''),
                      plus (Atom (Range CHR ''a'' CHR ''z''))]),
           plus (Atom SpaceChar), str ''Agreement'', Boundary],
      seq [Boundary, str ''term'', Opt (str ''s''), plus (Atom SpaceChar),
           Opt (seq [str ''and'', plus (Atom SpaceChar)]), str ''condition'', Opt (str ''s''),
           Boundary],
      seq [Boundary, str ''liability'', Boundary],
      seq [Boundary, str ''indemnif'', plus (Atom WordChar), Boundary],
      seq [Boundary, str ''warrant'', plus (Atom WordChar), Boundary],
      seq [Boundary, str ''governing'', plus (Atom SpaceChar), str ''law'', Boundary],
      seq [Boundary, str ''jurisdiction'', Boundary],
      seq [Boundary, str ''arbitration'', Boundary],
      seq [Boundary, str ''confidential'', Star (Atom WordChar), Boundary],
      seq [Boundary, str ''termination'', Boundary],
      seq [Boundary, str ''payment'', Boundary]]"

text \<open>
  \<^verbatim>\<open>list(set(terms))\<close> is a list without duplicates in an order that Python does not fix;
  the model returns the set.
\<close>

definition extract_key_terms :: "string \<Rightarrow> string set" where
  "extract_key_terms text =
     (let terms = concat (map (\<lambda>pattern. findall True pattern text) legal_patterns)
      in set terms)"

section \<open>Errors that the analysis could raise\<close>

datatype py_error = ZeroDivisionError | IndexError

text \<open>\<^verbatim>\<open>xs[i]\<close> for \<open>i \<ge> 0\<close>, and \<^verbatim>\<open>a / b\<close> on two lengths (the exact quotient, of which
  Python holds the nearest float).\<close>

definition getitem :: "'a list \<Rightarrow> nat \<Rightarrow> py_error + 'a" where
  "getitem xs i = (if i < length xs then Inr (xs ! i) else Inl IndexError)"

definition truediv :: "nat \<Rightarrow> nat \<Rightarrow> py_error + rat" where
  "truediv a b = (if b = 0 then Inl ZeroDivisionError else Inr (of_nat a / of_nat b))"

section \<open>The structural analyzer\<close>

text \<open>\<^verbatim>\<open>re.match(r'^\s*\d+\.', s)\<close>: optional whitespace, at least one digit, a period.\<close>

definition section_match :: "string \<Rightarrow> bool" where
  "section_match s =
     (let after_space = dropWhile is_space s;
          digits = takeWhile is_digit after_space;
          after_digits = dropWhile is_digit after_space
      in digits \<noteq> [] \<and> (case after_digits of [] \<Rightarrow> False | c # _ \<Rightarrow> c = CHR ''.''))"

fun sections_loop :: "string list \<Rightarrow> string list \<Rightarrow> string list" where
  "sections_loop sections [] = sections"
| "sections_loop sections (line # lines) =
     (if section_match (strip line) then sections_loop (sections @ [strip line]) lines
      else sections_loop sections lines)"

record doc_structure =
  sections :: "string list"
  sentence_count :: nat
  paragraph_count :: nat
  avg_sentence_length :: rat

definition analyze_document_structure :: "string \<Rightarrow> py_error + doc_structure" where
  "analyze_document_structure text =
     (let lines = split_sep [CHR 0x0A] text;
          sections = sections_loop [] lines;
          sentences = map strip (filter (\<lambda>s. strip s \<noteq> []) (split_sep ''.'' text));
          paragraphs = map strip (filter (\<lambda>p. strip p \<noteq> []) (split_sep [CHR 0x0A, CHR 0x0A] text))
      in case (if sentences \<noteq> []
               then truediv (sum_list (map (\<lambda>s. length (split_ws s)) sentences)) (length sentences)
               else Inr 0) of
           Inl e \<Rightarrow> Inl e
         | Inr avg \<Rightarrow>
             Inr \<lparr>sections = sections, sentence_count = length sentences,
                  paragraph_count = length paragraphs, avg_sentence_length = avg\<rparr>)"

section \<open>The summarizer\<close>

definition important_indicators :: "string list" where
  "important_indicators =
     [''agree'', ''shall'', ''payment'', ''liability'', ''termination'',
      ''confidential'', ''governing law'', ''dispute'']"

fun summary_loop :: "string list \<Rightarrow> string list \<Rightarrow> string list" where
  "summary_loop summary_sentences [] = summary_sentences"
| "summary_loop summary_sentences (sentence # rest) =
     (if list_ex (\<lambda>indicator. contains indicator (lower sentence)) important_indicators
      then (if length summary_sentences < 4
            then summary_loop (summary_sentences @ [sentence]) rest
            else summary_loop summary_sentences rest)
      else summary_loop summary_sentences rest)"

definition create_simple_summary :: "string \<Rightarrow> py_error + string" where
  "create_simple_summary text =
     (let sentences = map strip (filter (\<lambda>s. strip s \<noteq> [] \<and> length s > 20) (split_sep ''.'' text))
      in case (if sentences \<noteq> []
               then (case getitem sentences 0 of Inl e \<Rightarrow> Inl e | Inr first \<Rightarrow> Inr [first])
               else Inr []) of
           Inl e \<Rightarrow> Inl e
         | Inr summary_sentences \<Rightarrow>
             Inr (join ''. '' (summary_loop summary_sentences (drop 1 sentences)) @ ''.''))"

section \<open>The obligation extractor\<close>

definition obligation_words :: "string list" where
  "obligation_words = [''shall'', ''must'', ''agrees to'', ''required to'', ''responsible for'']"

fun obligations_loop :: "string list \<Rightarrow> string list \<Rightarrow> string list" where
  "obligations_loop obligations [] = obligations"
| "obligations_loop obligations (sentence # rest) =
     (if list_ex (\<lambda>word. contains word (lower sentence)) obligation_words
      then (let simplified = replace ''The Client'' ''You'' sentence;
                simplified = replace ''The Provider'' ''The service provider'' simplified;
                simplified = replace ''shall'' ''must'' simplified
            in obligations_loop (obligations @ [simplified]) rest)
      else obligations_loop obligations rest)"

definition extract_key_obligations :: "string \<Rightarrow> string list" where
  "extract_key_obligations text =
     (let sentences = map strip (filter (\<lambda>s. strip s \<noteq> []) (split_sep ''.'' text))
      in take 6 (obligations_loop [] sentences))"

section \<open>The risk extractor\<close>

definition risk_indicators :: "string list" where
  "risk_indicators =
     [''liability'', ''penalty'', ''fee'', ''terminate'', ''breach'',
      ''default'', ''damages'', ''dispute'', ''arbitration'', ''court'']"

text \<open>
  The prefix of \<^verbatim>\<open>f"\<dots> {sentence}"\<close>: the warning sign U+26A0, the variation selector
  U+FE0F and a space.  The two code points lie above 255; they are written here as their
  six UTF-8 bytes.  No function of the program inspects the prefix.
\<close>

definition warning_marker :: string where
  "warning_marker = [CHR 0xE2, CHR 0x9A, CHR 0xA0, CHR 0xEF, CHR 0xB8, CHR 0x8F, CHR '' '']"

fun risks_loop :: "string list \<Rightarrow> string list \<Rightarrow> string list" where
  "risks_loop risks [] = risks"
| "risks_loop risks (sentence # rest) =
     (if list_ex (\<lambda>indicator. contains indicator (lower sentence)) risk_indicators
      then (let risk_explanation = warning_marker @ sentence
            in risks_loop (risks @ [risk_explanation]) rest)
      else risks_loop risks rest)"

definition identify_risks_and_warnings :: "string \<Rightarrow> string list" where
  "identify_risks_and_warnings text =
     (let sentences = map strip (filter (\<lambda>s. strip s \<noteq> []) (split_sep ''.'' text))
      in take 5 (risks_loop [] sentences))"

section \<open>The readability scorer\<close>

text \<open>
  The result dictionary has the keys \<^verbatim>\<open>score\<close> and \<^verbatim>\<open>level\<close> always and the counts only
  when there is a sentence.  Its key \<^verbatim>\<open>avg_words_per_sentence\<close>, the quotient of the two
  counts rounded as a float to one decimal, is not modelled.  The average is compared with
  15 and 25 as an exact quotient; the float comparison of the program agrees with it for
  every text of fewer than \<open>2 ^ 49\<close> sentences.
\<close>

record readability =
  total_words :: "nat option"
  total_sentences :: "nat option"
  score :: string
  level :: string

definition calculate_readability :: "string \<Rightarrow> py_error + readability" where
  "calculate_readability text =
     (let words = split_ws text;
          sentences = filter (\<lambda>s. strip s \<noteq> []) (split_sep ''.'' text)
      in if sentences = []
         then Inr \<lparr>total_words = None, total_sentences = None,
                   score = ''N/A'', level = ''Unable to calculate''\<rparr>
         else (case truediv (length words) (length sentences) of
                 Inl e \<Rightarrow> Inl e
               | Inr avg_words_per_sentence \<Rightarrow>
                   let (level, score) =
                         (if avg_words_per_sentence < 15 then (''Easy to read'', ''Good'')
                          else if avg_words_per_sentence < 25 then (''Moderate difficulty'', ''Fair'')
                          else (''Difficult to read'', ''Complex''))
                   in Inr \<lparr>total_words = Some (length words),
                           total_sentences = Some (length sentences),
                           score = score, level = level\<rparr>))"

section \<open>The analysis pipeline\<close>

text \<open>
  The surroundings of \<^verbatim>\<open>analyze_document\<close>: the files that can be read, with their
  contents, and the formatted time of the call.  \<^verbatim>\<open>read_text_file\<close> returns the empty
  string for a file that cannot be read.  Printing is not modelled.
\<close>

record env =
  files :: "string \<Rightarrow> string option"
  now :: string

definition read_text_file :: "env \<Rightarrow> string \<Rightarrow> string" where
  "read_text_file e file_path = (case files e file_path of None \<Rightarrow> [] | Some content \<Rightarrow> content)"

record document_info =
  file_path :: string
  word_count :: nat
  analysis_date :: string

record report =
  document_info :: document_info
  key_terms :: "string set"
  structure_info :: doc_structure
  plain_language_summary :: string
  key_obligations :: "string list"
  risks_and_warnings :: "string list"
  readability_info :: readability
  original_preview :: string

text \<open>The two dictionaries that \<^verbatim>\<open>analyze_document\<close> returns: \<^verbatim>\<open>{"error": \<dots>}\<close>, or the
  report (whose keys \<^verbatim>\<open>structure\<close> and \<^verbatim>\<open>readability\<close> are the fields
  \<^const>\<open>structure_info\<close> and \<^const>\<open>readability_info\<close>).\<close>

datatype analysis = Error string | Report report

definition analyze_document :: "env \<Rightarrow> string \<Rightarrow> py_error + analysis" where
  "analyze_document e path =
     (let text = read_text_file e path
      in if text = [] then Inr (Error ''Could not read the document'')
         else
           let cleaned_text = clean_text text;
               key_terms = extract_key_terms cleaned_text
           in case analyze_document_structure cleaned_text of
                Inl err \<Rightarrow> Inl err
              | Inr structure \<Rightarrow>
                 (case create_simple_summary cleaned_text of
                    Inl err \<Rightarrow> Inl err
                  | Inr summary \<Rightarrow>
                     let obligations = extract_key_obligations cleaned_text;
                         risks = identify_risks_and_warnings cleaned_text
                     in case calculate_readability cleaned_text of
                          Inl err \<Rightarrow> Inl err
                        | Inr readability \<Rightarrow>
                            Inr (Report
                              \<lparr>document_info =
                                 \<lparr>file_path = path,
                                  word_count = length (split_ws cleaned_text),
                                  analysis_date = now e\<rparr>,
                               key_terms = key_terms,
                               structure_info = structure,
                               plain_language_summary = summary,
                               key_obligations = obligations,
                               risks_and_warnings = risks,
                               readability_info = readability,
                               original_preview =
                                 (if length cleaned_text > 300 then take 300 cleaned_text @ ''...''
                                  else cleaned_text)\<rparr>)))"

section \<open>The sample document\<close>

definition create_sample_legal_text :: string where
  "create_sample_legal_text = join [CHR 0x0A]
     ['''',
      ''    SERVICE AGREEMENT'',
      ''    '',
      ''    This Service Agreement is entered into between Company XYZ (Provider) and the Client.'',
      ''    '',
      ''    1. SERVICES'',
      ''    Provider agrees to perform consulting services as described in Exhibit A. All services shall be '',
      ''    performed in a professional manner according to industry standards.'',
      ''    '',
      ''    2. PAYMENT TERMS'',
      ''    Client agrees to pay Provider the fees outlined in Exhibit A. Payment is due within thirty (30) '',
      ''    days of invoice date. Late payments may incur a fee of 1.5% per month.'',
      ''    '',
      ''    3. CONFIDENTIALITY'',
      ''    Both parties agree to maintain confidentiality of all shared information and not disclose '',
      ''    it to third parties without written consent.'',
      ''    '',
      ''    4. LIABILITY LIMITATION'',
      ''    Provider'' @ [CHR 0x27] @ ''s liability shall not exceed the total amount paid by Client under this Agreement. '',
      ''    Provider shall not be liable for indirect, incidental, or consequential damages.'',
      ''    '',
      ''    5. GOVERNING LAW'',
      ''    This Agreement shall be governed by state law. Disputes shall be resolved through binding arbitration.'',
      ''    '',
      ''    6. TERMINATION'',
      ''    Either party may terminate this Agreement with thirty (30) days written notice.'',
      ''    '']"

section \<open>Predicates used to state the properties\<close>

text \<open>No two neighbouring characters of the string are both whitespace.\<close>

fun no_ws_run :: "string \<Rightarrow> bool" where
  "no_ws_run [] = True"
| "no_ws_run [c] = True"
| "no_ws_run (a # b # cs) = (\<not> (is_space a \<and> is_space b) \<and> no_ws_run (b # cs))"

text \<open>
  The character set that the specification gives for cleaned text,
  \<^verbatim>\<open>[A-Za-z0-9 .,;:!?()-]\<close>, written from the specification's words.
\<close>

definition spec_allowed_char :: "char \<Rightarrow> bool" where
  "spec_allowed_char c =
     (let n = (of_char c :: nat)
      in (65 \<le> n \<and> n \<le> 90) \<or> (97 \<le> n \<and> n \<le> 122) \<or> (48 \<le> n \<and> n \<le> 57)
         \<or> c \<in> set '' .,;:!?()-'')"

text \<open>
  The sentence list that the obligation and risk extractors build, their selection tests and
  the rewriting of a selected sentence, named so that the properties can speak of them; and
  the pieces that the summarizer keeps, with its indicator test.
\<close>

definition sentences_of :: "string \<Rightarrow> string list" where
  "sentences_of text = map strip (filter (\<lambda>s. strip s \<noteq> []) (split_sep ''.'' text))"

definition is_obligation :: "string \<Rightarrow> bool" where
  "is_obligation s = list_ex (\<lambda>word. contains word (lower s)) obligation_words"

definition simplify :: "string \<Rightarrow> string" where
  "simplify s =
     replace ''shall'' ''must'' (replace ''The Provider'' ''The service provider''
       (replace ''The Client'' ''You'' s))"

definition is_risk :: "string \<Rightarrow> bool" where
  "is_risk s = list_ex (\<lambda>indicator. contains indicator (lower s)) risk_indicators"

definition qualifying :: "string \<Rightarrow> string list" where
  "qualifying text =
     map strip (filter (\<lambda>s. strip s \<noteq> [] \<and> 20 < length s) (split_sep ''.'' text))"

definition has_indicator :: "string \<Rightarrow> bool" where
  "has_indicator s = list_ex (\<lambda>indicator. contains indicator (lower s)) important_indicators"

text \<open>
  The pieces between periods that are not blank, which the readability scorer counts as
  sentences; and a string that begins with at least one digit followed by a period.
\<close>

definition nonblank_pieces :: "string \<Rightarrow> string list" where
  "nonblank_pieces text = filter (\<lambda>s. strip s \<noteq> []) (split_sep ''.'' text)"

definition starts_with_digits_dot :: "string \<Rightarrow> bool" where
  "starts_with_digits_dot s =
     (takeWhile is_digit s \<noteq> [] \<and>
      (case dropWhile is_digit s of [] \<Rightarrow> False | c # _ \<Rightarrow> c = CHR ''.''))"

section \<open>Properties of the text normalizer\<close>

lemma collapse_ws_space: "c \<in> set (collapse_ws s) \<Longrightarrow> is_space c \<Longrightarrow> c = CHR '' ''"
  by (induction s rule: collapse_ws.induct) (auto split: if_splits)

lemma set_strip: "set (strip s) \<subseteq> set s"
  unfolding strip_def by (auto dest!: set_dropWhileD)

lemma strip_ends:
  assumes "strip s \<noteq> []"
  shows "\<not> is_space (hd (strip s))" and "\<not> is_space (last (strip s))"
proof -
  let ?d = "dropWhile is_space s"
  let ?e = "dropWhile is_space (rev ?d)"
  from assms have e: "?e \<noteq> []" by (simp add: strip_def)
  then have d: "?d \<noteq> []" by (auto simp del: dropWhile_eq_Nil_conv)
  from e have "\<not> is_space (hd ?e)" by (rule hd_dropWhile)
  with e show "\<not> is_space (last (strip s))" by (simp add: strip_def last_rev)
  from d have hd: "\<not> is_space (hd ?d)" by (rule hd_dropWhile)
  from d have "hd ?d \<in> set (rev ?d)" by simp
  then have "last ?e = last (rev ?d)"
    using hd dropWhile_last [of "hd ?d" "rev ?d" is_space] by simp
  with d e hd show "\<not> is_space (hd (strip s))" by (simp add: strip_def hd_rev last_rev)
qed

lemma strip_id:
  assumes "s = [] \<or> (\<not> is_space (hd s) \<and> \<not> is_space (last s))"
  shows "strip s = s"
proof (cases "s = []")
  case True
  then show ?thesis by (simp add: strip_def)
next
  case False
  with assms have h: "\<not> is_space (hd s)" and l: "\<not> is_space (last s)" by auto
  from h have a: "dropWhile is_space s = s" by (simp add: dropWhile_eq_self_iff)
  from l False have "\<not> is_space (hd (rev s))" by (simp add: hd_rev)
  then have "dropWhile is_space (rev s) = rev s" by (simp add: dropWhile_eq_self_iff)
  with a show ?thesis by (simp add: strip_def)
qed

lemma clean_text_set: "c \<in> set (clean_text text) \<Longrightarrow> is_word c \<or> c = CHR '' '' \<or> c \<in> set ''.,;:!?()-''"
proof -
  assume "c \<in> set (clean_text text)"
  then have "c \<in> set (filter kept_char (collapse_ws text))"
    using set_strip unfolding clean_text_def by blast
  then have k: "kept_char c" and m: "c \<in> set (collapse_ws text)" by auto
  show ?thesis
  proof (cases "is_space c")
    case True
    with m show ?thesis by (simp add: collapse_ws_space)
  next
    case False
    with k show ?thesis unfolding kept_char_def by blast
  qed
qed

lemma clean_text_only_blank: "c \<in> set (clean_text text) \<Longrightarrow> is_space c \<Longrightarrow> c = CHR '' ''"
proof -
  assume "c \<in> set (clean_text text)" and s: "is_space c"
  then have "c \<in> set (collapse_ws text)" using set_strip unfolding clean_text_def by fastforce
  with s show ?thesis using collapse_ws_space by blast
qed

lemma clean_text_ends: "clean_text text = [] \<or> (\<not> is_space (hd (clean_text text)) \<and> \<not> is_space (last (clean_text text)))"
  unfolding clean_text_def using strip_ends by blast

text \<open>
  Claim C3 says that cleaned text has no run of whitespace longer than one space and no
  character outside \<^verbatim>\<open>[A-Za-z0-9 .,;:!?()-]\<close>.  Both parts fail: a removed character that
  stood between two spaces leaves the two spaces side by side, and the class \<^verbatim>\<open>\w\<close> keeps
  the underscore.
\<close>

theorem clean_text_invariant_counterexample:
  "\<not> no_ws_run (clean_text ''a @ b'') \<and> \<not> list_all spec_allowed_char (clean_text ''a_b'')"
  by code_simp

text \<open>
  Claim C3, amended: for every input, each character of the cleaned text is a word character
  (the class \<^verbatim>\<open>\w\<close>: letters, digits and the underscore), the space, or one of the nine marks
  \<^verbatim>\<open>.,;:!?()-\<close>.
\<close>

theorem clean_text_output_chars:
  "\<forall>c\<in>set (clean_text text). is_word c \<or> c = CHR '' '' \<or> c \<in> set ''.,;:!?()-''"
  using clean_text_set by blast

theorem clean_text_output_chars_witness:
  "clean_text (''Fee_1:  50%'' @ [CHR 0x09] @ ''(net) @ x. '') = ''Fee_1: 50 (net)  x.'' \<and>
   list_all (\<lambda>c. is_word c \<or> c = CHR '' '' \<or> c \<in> set ''.,;:!?()-'') ''Fee_1: 50 (net)  x.''"
proof -
  have val: "clean_text (''Fee_1:  50%'' @ [CHR 0x09] @ ''(net) @ x. '') = ''Fee_1: 50 (net)  x.''"
    by code_simp
  from clean_text_output_chars [of "''Fee_1:  50%'' @ [CHR 0x09] @ ''(net) @ x. ''"] show ?thesis
    unfolding val by (simp add: list_all_iff)
qed

text \<open>
  Claim C4 says that the normalizer is idempotent.  The program breaks it: it collapses the
  whitespace before it removes characters, so cleaning \<^verbatim>\<open>"a @ b"\<close> gives \<^verbatim>\<open>"a  b"\<close>
  with two spaces, which a second cleaning turns into \<^verbatim>\<open>"a b"\<close>.
\<close>

theorem clean_text_not_idempotent:
  "clean_text ''a @ b'' = ''a  b'' \<and> clean_text (clean_text ''a @ b'') = ''a b''"
  by code_simp

section \<open>Lemmas on the extractors and the summarizer\<close>

lemma obligations_loop_eq:
  "obligations_loop acc ss = acc @ map simplify (filter is_obligation ss)"
  by (induction ss arbitrary: acc) (simp_all add: simplify_def is_obligation_def)

lemma risks_loop_eq:
  "risks_loop acc ss = acc @ map ((@) warning_marker) (filter is_risk ss)"
  by (induction ss arbitrary: acc) (simp_all add: is_risk_def)

lemma extract_key_obligations_eq:
  "extract_key_obligations text = take 6 (map simplify (filter is_obligation (sentences_of text)))"
  by (simp add: extract_key_obligations_def sentences_of_def obligations_loop_eq)

lemma identify_risks_eq:
  "identify_risks_and_warnings text =
     take 5 (map ((@) warning_marker) (filter is_risk (sentences_of text)))"
  by (simp add: identify_risks_and_warnings_def sentences_of_def risks_loop_eq)

lemma summary_loop_eq:
  "length acc \<le> 4 \<Longrightarrow>
   summary_loop acc ss = acc @ take (4 - length acc) (filter has_indicator ss)"
proof (induction ss arbitrary: acc)
  case Nil
  show ?case by simp
next
  case (Cons s ss)
  show ?case
  proof (cases "has_indicator s \<and> length acc < 4")
    case True
    then have "summary_loop acc (s # ss) = summary_loop (acc @ [s]) ss"
      by (simp add: has_indicator_def)
    also have "\<dots> = (acc @ [s]) @ take (4 - length (acc @ [s])) (filter has_indicator ss)"
      using True by (intro Cons.IH) simp
    also have "\<dots> = acc @ take (4 - length acc) (filter has_indicator (s # ss))"
      using True by (simp add: take_Cons')
    finally show ?thesis .
  next
    case False
    then have "summary_loop acc (s # ss) = summary_loop acc ss"
      by (auto simp: has_indicator_def)
    also have "\<dots> = acc @ take (4 - length acc) (filter has_indicator ss)"
      using Cons.prems by (rule Cons.IH)
    also have "\<dots> = acc @ take (4 - length acc) (filter has_indicator (s # ss))"
      using False Cons.prems by auto
    finally show ?thesis .
  qed
qed

lemma create_simple_summary_eq:
  "create_simple_summary text =
     Inr (case qualifying text of
            [] \<Rightarrow> ''.''
          | first # rest \<Rightarrow> join ''. '' (first # take 3 (filter has_indicator rest)) @ ''.'')"
proof (cases "qualifying text")
  case Nil
  then show ?thesis
    by (simp add: create_simple_summary_def qualifying_def)
next
  case (Cons first rest)
  then have "create_simple_summary text = Inr (join ''. '' (summary_loop [first] rest) @ ''.'')"
    by (simp add: create_simple_summary_def qualifying_def getitem_def)
  with Cons show ?thesis
    by (simp add: summary_loop_eq)
qed

lemma replace_hit:
  "old \<noteq> [] \<Longrightarrow> startswith old (c # cs) \<Longrightarrow>
   replace old new (c # cs) = new @ replace old new (drop (length old) (c # cs))"
  by simp

lemma replace_miss:
  "old \<noteq> [] \<Longrightarrow> \<not> startswith old (c # cs) \<Longrightarrow>
   replace old new (c # cs) = c # replace old new cs"
  by simp

lemma startswith_replace_shall:
  "CHR ''m'' \<notin> set p \<Longrightarrow> startswith p (replace ''shall'' ''must'' s) \<Longrightarrow> startswith p s"
proof (induction p arbitrary: s)
  case Nil
  show ?case by simp
next
  case (Cons a p)
  from Cons.prems(1) have a: "a \<noteq> CHR ''m''" and p: "CHR ''m'' \<notin> set p" by auto
  show ?case
  proof (cases s)
    case Nil
    with Cons.prems show ?thesis by simp
  next
    case (Cons x xs)
    show ?thesis
    proof (cases "startswith ''shall'' (x # xs)")
      case True
      then obtain r where "replace ''shall'' ''must'' (x # xs) = ''must'' @ r"
        using replace_hit [of "''shall''" x xs "''must''"] by simp
      with Cons.prems(2) Cons a show ?thesis by simp
    next
      case False
      then have "replace ''shall'' ''must'' (x # xs) = x # replace ''shall'' ''must'' xs"
        by (intro replace_miss) simp_all
      with Cons.prems(2) Cons have "a = x" and "startswith p (replace ''shall'' ''must'' xs)"
        by simp_all
      with Cons.IH [OF p] Cons show ?thesis by simp
    qed
  qed
qed

lemma contains_must_append: "contains ''shall'' (''must'' @ r) = contains ''shall'' r"
  by simp

lemma no_shall_left: "\<not> contains ''shall'' (replace ''shall'' ''must'' s)"
proof (induction s rule: length_induct)
  case (1 s)
  show ?case
  proof (cases s)
    case Nil
    then show ?thesis by simp
  next
    case (Cons c cs)
    show ?thesis
    proof (cases "startswith ''shall'' (c # cs)")
      case True
      let ?d = "drop (length ''shall'') (c # cs)"
      have "length ?d < length s" using Cons by simp
      with 1 have "\<not> contains ''shall'' (replace ''shall'' ''must'' ?d)" by blast
      moreover have "replace ''shall'' ''must'' (c # cs) = ''must'' @ replace ''shall'' ''must'' ?d"
        using True by (intro replace_hit) simp_all
      ultimately show ?thesis using Cons by (simp only: contains_must_append simp_thms)
    next
      case False
      have tail: "\<not> contains ''shall'' (replace ''shall'' ''must'' cs)"
        using 1 Cons by simp
      have eq: "replace ''shall'' ''must'' (c # cs) = c # replace ''shall'' ''must'' cs"
        using False by (intro replace_miss) simp_all
      have "\<not> startswith ''shall'' (c # replace ''shall'' ''must'' cs)"
      proof
        assume "startswith ''shall'' (c # replace ''shall'' ''must'' cs)"
        then have "CHR ''s'' = c \<and> startswith ''hall'' (replace ''shall'' ''must'' cs)"
          unfolding startswith.simps(3) .
        then have c: "c = CHR ''s''" and h: "startswith ''hall'' (replace ''shall'' ''must'' cs)"
          by blast+
        have "CHR ''m'' \<notin> set ''hall''" by simp
        from this h have "startswith ''hall'' cs"
          by (rule startswith_replace_shall)
        with c False show False by simp
      qed
      with tail eq Cons show ?thesis by (simp del: replace.simps)
    qed
  qed
qed

lemma replace_absent: "old \<noteq> [] \<Longrightarrow> \<not> contains old s \<Longrightarrow> replace old new s = s"
  by (induction s) auto

lemma split_sep_absent: "c \<notin> set s \<Longrightarrow> split_sep [c] s = [s]"
  by (induction s) auto

lemma startswith_append:
  "startswith p (u @ v) =
     (if length p \<le> length u then startswith p u
      else take (length u) p = u \<and> startswith (drop (length u) p) v)"
proof (induction p arbitrary: u)
  case Nil
  show ?case by simp
next
  case (Cons a p)
  show ?case
  proof (cases u)
    case Nil
    then show ?thesis by simp
  next
    case (Cons x xs)
    with Cons.IH [of xs] show ?thesis by auto
  qed
qed

lemma startswith_shall_straddle:
  assumes "u \<noteq> []" and "startswith ''shall'' (u @ ''shall'' @ b)"
  shows "startswith ''shall'' u"
proof (cases "length ''shall'' \<le> length u")
  case True
  with assms(2) show ?thesis by (simp only: startswith_append if_True)
next
  case False
  have "startswith ''shall'' (u @ ''shall'' @ b) =
          (take (length u) ''shall'' = u \<and> startswith (drop (length u) ''shall'') (''shall'' @ b))"
    using False startswith_append [of "''shall''" u "''shall'' @ b"] by (simp only: if_False)
  with assms(2) have d: "startswith (drop (length u) ''shall'') (''shall'' @ b)"
    by blast
  from False assms(1) have "0 < length u" and "length u < 5"
    by simp_all
  then have "length u = Suc 0 \<or> length u = Suc (Suc 0)
             \<or> length u = Suc (Suc (Suc 0)) \<or> length u = Suc (Suc (Suc (Suc 0)))"
    by arith
  then consider "length u = Suc 0" | "length u = Suc (Suc 0)"
    | "length u = Suc (Suc (Suc 0))" | "length u = Suc (Suc (Suc (Suc 0)))"
    by blast
  then have False
  proof cases
    case 1
    with d show False by simp
  next
    case 2
    with d show False by simp
  next
    case 3
    with d show False by simp
  next
    case 4
    with d show False by simp
  qed
  then show ?thesis ..
qed

lemma replace_shall_occurrence:
  "\<not> contains ''shall'' a \<Longrightarrow>
   replace ''shall'' ''must'' (a @ ''shall'' @ b) = a @ ''must'' @ replace ''shall'' ''must'' b"
proof (induction a)
  case Nil
  show ?case by simp
next
  case (Cons x a)
  from Cons.prems have "\<not> (startswith ''shall'' (x # a) \<or> contains ''shall'' a)"
    by (simp only: contains.simps simp_thms)
  then have no_start: "\<not> startswith ''shall'' (x # a)"
    and no_later: "\<not> contains ''shall'' a"
    by blast+
  have "\<not> startswith ''shall'' (x # (a @ ''shall'' @ b))"
  proof
    assume "startswith ''shall'' (x # (a @ ''shall'' @ b))"
    then have "startswith ''shall'' ((x # a) @ ''shall'' @ b)"
      by (simp only: append_Cons append_Nil simp_thms)
    with startswith_shall_straddle [of "x # a" b] have "startswith ''shall'' (x # a)"
      by blast
    with no_start show False ..
  qed
  then have "replace ''shall'' ''must'' (x # (a @ ''shall'' @ b))
               = x # replace ''shall'' ''must'' (a @ ''shall'' @ b)"
    by (intro replace_miss) simp_all
  with Cons.IH [OF no_later] show ?case
    by (simp only: append_Cons append_Nil simp_thms)
qed


lemma simplify_fun:
  "simplify = (\<lambda>s. replace ''shall'' ''must''
                 (replace ''The Provider'' ''The service provider''
                    (replace ''The Client'' ''You'' s)))"
  by (rule ext) (simp only: simplify_def)

lemma is_obligation_fun:
  "is_obligation = (\<lambda>s. list_ex (\<lambda>word. contains word (lower s)) obligation_words)"
  by (rule ext) (simp only: is_obligation_def)

section \<open>Properties of the summarizer\<close>

text \<open>
  Claim C5 says that the summarizer selects only sentences longer than 20 characters.  The
  program tests the length of the piece as it was split, \<^verbatim>\<open>len(s) > 20\<close>, and keeps the
  trimmed piece \<^verbatim>\<open>s.strip()\<close>: the piece \<^verbatim>\<open>" shall pay in 10 days"\<close> has 21 characters, and
  the sentence \<^verbatim>\<open>"shall pay in 10 days"\<close> that enters the summary has 20.
\<close>

theorem summary_keeps_short_sentence:
  "create_simple_summary ''First sentence is long enough here. shall pay in 10 days. x''
     = Inr ''First sentence is long enough here. shall pay in 10 days.'' \<and>
   qualifying ''First sentence is long enough here. shall pay in 10 days. x''
     = [''First sentence is long enough here'', ''shall pay in 10 days''] \<and>
   length ''shall pay in 10 days'' = 20"
  by code_simp

text \<open>
  Claim C5, amended: for every input the summarizer keeps the dot-separated pieces that are not
  blank and whose length before trimming exceeds 20 characters, in their trimmed form (which
  may have 20 characters or fewer); it always takes the first of them, then adds, in order, the
  later ones that contain an indicator word, up to four sentences in all, and joins them with
  \<^verbatim>\<open>". "\<close> and a final period; when no piece qualifies it returns the one-character string
  \<^verbatim>\<open>"."\<close>; and it never raises.
\<close>

theorem create_simple_summary_spec:
  "create_simple_summary text =
     Inr (case qualifying text of
            [] \<Rightarrow> ''.''
          | first # rest \<Rightarrow> join ''. '' (first # take 3 (filter has_indicator rest)) @ ''.'')
   \<and> (\<forall>x\<in>set (qualifying text). \<exists>s\<in>set (split_sep ''.'' text). x = strip s \<and> 20 < length s)
   \<and> (qualifying text = [] \<longrightarrow> create_simple_summary text = Inr ''.'')"
proof -
  have "\<forall>x\<in>set (qualifying text). \<exists>s\<in>set (split_sep ''.'' text). x = strip s \<and> 20 < length s"
    by (auto simp: qualifying_def)
  moreover have "qualifying text = [] \<longrightarrow> create_simple_summary text = Inr ''.''"
    by (simp add: create_simple_summary_eq)
  ultimately show ?thesis
    using create_simple_summary_eq by blast
qed

theorem create_simple_summary_spec_witness:
  "qualifying [] = [] \<and> create_simple_summary [] = Inr ''.'' \<and>
   qualifying ''The parties agree to the following terms. A short one. Payment shall be made within thirty days. The weather is nice in the summer time. Liability is limited to the fees paid. Any dispute goes to the courts of the state. Termination requires thirty days notice.''
     = [''The parties agree to the following terms'', ''Payment shall be made within thirty days'',
        ''The weather is nice in the summer time'', ''Liability is limited to the fees paid'',
        ''Any dispute goes to the courts of the state'', ''Termination requires thirty days notice''] \<and>
   create_simple_summary ''The parties agree to the following terms. A short one. Payment shall be made within thirty days. The weather is nice in the summer time. Liability is limited to the fees paid. Any dispute goes to the courts of the state. Termination requires thirty days notice.''
     = Inr ''The parties agree to the following terms. Payment shall be made within thirty days. Liability is limited to the fees paid. Any dispute goes to the courts of the state.''"
proof -
  have e: "qualifying [] = []"
    by code_simp
  have q: "qualifying ''The parties agree to the following terms. A short one. Payment shall be made within thirty days. The weather is nice in the summer time. Liability is limited to the fees paid. Any dispute goes to the courts of the state. Termination requires thirty days notice.''
     = [''The parties agree to the following terms'', ''Payment shall be made within thirty days'',
        ''The weather is nice in the summer time'', ''Liability is limited to the fees paid'',
        ''Any dispute goes to the courts of the state'', ''Termination requires thirty days notice'']"
    by code_simp
  have f: "join ''. '' (''The parties agree to the following terms'' # take 3 (filter has_indicator
        [''Payment shall be made within thirty days'',
        ''The weather is nice in the summer time'', ''Liability is limited to the fees paid'',
        ''Any dispute goes to the courts of the state'', ''Termination requires thirty days notice''])) @ ''.''
     = ''The parties agree to the following terms. Payment shall be made within thirty days. Liability is limited to the fees paid. Any dispute goes to the courts of the state.''"
    by code_simp
  from create_simple_summary_spec [of "[]"] e
  have 1: "create_simple_summary [] = Inr ''.''"
    by blast
  from create_simple_summary_spec [of "''The parties agree to the following terms. A short one. Payment shall be made within thirty days. The weather is nice in the summer time. Liability is limited to the fees paid. Any dispute goes to the courts of the state. Termination requires thirty days notice.''"]
  have 2: "create_simple_summary ''The parties agree to the following terms. A short one. Payment shall be made within thirty days. The weather is nice in the summer time. Liability is limited to the fees paid. Any dispute goes to the courts of the state. Termination requires thirty days notice.''
     = Inr ''The parties agree to the following terms. Payment shall be made within thirty days. Liability is limited to the fees paid. Any dispute goes to the courts of the state.''"
    unfolding q list.case f by blast
  from e q 1 2 show ?thesis by blast
qed

section \<open>Properties of the obligation and risk extractors\<close>

text \<open>
  Claim C6: on the single sentence \<^verbatim>\<open>"The Client shall pay within 30 days."\<close> the obligation
  extractor returns exactly one entry, in which \<^verbatim>\<open>"The Client"\<close> has become \<^verbatim>\<open>"You"\<close> and
  \<^verbatim>\<open>"shall"\<close> has become \<^verbatim>\<open>"must"\<close>.
\<close>

theorem obligation_single_sentence:
  "extract_key_obligations ''The Client shall pay within 30 days.'' = [''You must pay within 30 days'']"
  by code_simp

lemma subseq_take_filter: "subseq (take n (filter P xs)) xs"
proof -
  have "subseq (take n (filter P xs)) (filter P xs)"
    by (rule prefix_imp_subseq) (rule take_is_prefix)
  also have "subseq (filter P xs) xs" by simp
  finally show ?thesis .
qed

text \<open>
  Claim C7: for every input the obligation list has at most 6 entries and the risk list at
  most 5; the obligations are the rewritten forms of the first six matching sentences and the
  risks are the first five matching sentences, each with the warning marker in front, both in
  the order in which the sentences stand in the document.
\<close>

theorem extractor_limits_and_order:
  "length (extract_key_obligations text) \<le> 6 \<and>
   length (identify_risks_and_warnings text) \<le> 5 \<and>
   extract_key_obligations text = map simplify (take 6 (filter is_obligation (sentences_of text))) \<and>
   identify_risks_and_warnings text =
     map ((@) warning_marker) (take 5 (filter is_risk (sentences_of text))) \<and>
   subseq (take 6 (filter is_obligation (sentences_of text))) (sentences_of text) \<and>
   subseq (take 5 (filter is_risk (sentences_of text))) (sentences_of text)"
  by (simp add: extract_key_obligations_eq identify_risks_eq take_map subseq_take_filter)

theorem extractor_limits_and_order_witness:
  "sentences_of ''A shall b. C must d. No duty. E agrees to f. G is required to h. I is responsible for j. K shall l. M must n''
     = [''A shall b'', ''C must d'', ''No duty'', ''E agrees to f'', ''G is required to h'',
        ''I is responsible for j'', ''K shall l'', ''M must n''] \<and>
   extract_key_obligations ''A shall b. C must d. No duty. E agrees to f. G is required to h. I is responsible for j. K shall l. M must n''
     = [''A must b'', ''C must d'', ''E agrees to f'', ''G is required to h'',
        ''I is responsible for j'', ''K must l''] \<and>
   identify_risks_and_warnings ''A fee. No risk. A penalty. A breach. A default. A court. A dispute''
     = map ((@) warning_marker) [''A fee'', ''A penalty'', ''A breach'', ''A default'', ''A court'']"
proof -
  have s: "sentences_of ''A shall b. C must d. No duty. E agrees to f. G is required to h. I is responsible for j. K shall l. M must n''
     = [''A shall b'', ''C must d'', ''No duty'', ''E agrees to f'', ''G is required to h'',
        ''I is responsible for j'', ''K shall l'', ''M must n'']"
    by code_simp
  have o: "map simplify (take 6 (filter is_obligation [''A shall b'', ''C must d'', ''No duty'', ''E agrees to f'', ''G is required to h'',
        ''I is responsible for j'', ''K shall l'', ''M must n'']))
     = [''A must b'', ''C must d'', ''E agrees to f'', ''G is required to h'',
        ''I is responsible for j'', ''K must l'']"
    by code_simp
  have r: "take 5 (filter is_risk (sentences_of ''A fee. No risk. A penalty. A breach. A default. A court. A dispute''))
     = [''A fee'', ''A penalty'', ''A breach'', ''A default'', ''A court'']"
    by code_simp
  from extractor_limits_and_order [of "''A shall b. C must d. No duty. E agrees to f. G is required to h. I is responsible for j. K shall l. M must n''"]
       extractor_limits_and_order [of "''A fee. No risk. A penalty. A breach. A default. A court. A dispute''"]
  show ?thesis
    unfolding s o r by blast
qed

text \<open>
  Claim C10: the rewrites of the obligation extractor are plain, case-sensitive substring
  replacements without word boundaries, and the selection is case-insensitive.  For every
  input the result is the first six selected sentences, each rewritten by the three
  replacements in their order, where a sentence is selected when its lower-case form contains
  an obligation word.  The replacement of \<^verbatim>\<open>"shall"\<close> turns an occurrence that follows a text
  without \<^verbatim>\<open>"shall"\<close> into \<^verbatim>\<open>"must"\<close>, whatever stands around it, and goes on behind it; a
  replacement changes nothing in a string that does not contain its exact search text (so
  \<^verbatim>\<open>"Shall"\<close> stays); and no entry of the result contains \<^verbatim>\<open>"shall"\<close> any more.  On
  \<^verbatim>\<open>"Marshall shall pay. Shall we pay. SHALL WE"\<close> all three sentences are selected and
  the result is \<^verbatim>\<open>"Marmust must pay"\<close>, \<^verbatim>\<open>"Shall we pay"\<close>, \<^verbatim>\<open>"SHALL WE"\<close>.
\<close>

theorem obligation_rewrites_case_sensitive:
  "extract_key_obligations text =
     take 6 (map (\<lambda>s. replace ''shall'' ''must''
                         (replace ''The Provider'' ''The service provider''
                            (replace ''The Client'' ''You'' s)))
                 (filter (\<lambda>s. list_ex (\<lambda>word. contains word (lower s)) obligation_words)
                         (sentences_of text))) \<and>
   (\<forall>a b. \<not> contains ''shall'' a \<longrightarrow>
      replace ''shall'' ''must'' (a @ ''shall'' @ b) = a @ ''must'' @ replace ''shall'' ''must'' b) \<and>
   (\<forall>old new s. old \<noteq> [] \<and> \<not> contains old s \<longrightarrow> replace old new s = s) \<and>
   (\<forall>entry\<in>set (extract_key_obligations text). \<not> contains ''shall'' entry) \<and>
   extract_key_obligations ''Marshall shall pay. Shall we pay. SHALL WE''
     = [''Marmust must pay'', ''Shall we pay'', ''SHALL WE'']"
proof -
  have "extract_key_obligations text =
     take 6 (map (\<lambda>s. replace ''shall'' ''must''
                         (replace ''The Provider'' ''The service provider''
                            (replace ''The Client'' ''You'' s)))
                 (filter (\<lambda>s. list_ex (\<lambda>word. contains word (lower s)) obligation_words)
                         (sentences_of text)))"
    by (simp only: extract_key_obligations_eq simplify_fun is_obligation_fun)
  moreover have "\<forall>a b. \<not> contains ''shall'' a \<longrightarrow>
      replace ''shall'' ''must'' (a @ ''shall'' @ b) = a @ ''must'' @ replace ''shall'' ''must'' b"
    using replace_shall_occurrence by blast
  moreover have "\<forall>old new s. old \<noteq> [] \<and> \<not> contains old s \<longrightarrow> replace old new s = s"
    using replace_absent by blast
  moreover have "\<forall>entry\<in>set (extract_key_obligations text). \<not> contains ''shall'' entry"
    unfolding extract_key_obligations_eq
    by (auto simp: simplify_def no_shall_left dest!: in_set_takeD)
  moreover have "extract_key_obligations ''Marshall shall pay. Shall we pay. SHALL WE''
     = [''Marmust must pay'', ''Shall we pay'', ''SHALL WE'']"
    by code_simp
  ultimately show ?thesis by blast
qed

theorem obligation_rewrites_case_sensitive_witness:
  "extract_key_obligations ''The Provider shall marshall. Shall we''
     = [''The service provider must marmust'', ''Shall we''] \<and>
   list_all (\<lambda>entry. \<not> contains ''shall'' entry) [''The service provider must marmust'', ''Shall we''] \<and>
   \<not> contains ''shall'' ''Mar'' \<and>
   replace ''shall'' ''must'' (''Mar'' @ ''shall'' @ '' shall pay'') = ''Mar'' @ ''must'' @ '' must pay'' \<and>
   ''shall'' \<noteq> [] \<and> \<not> contains ''shall'' ''Shall we'' \<and>
   replace ''shall'' ''must'' ''Shall we'' = ''Shall we''"
proof -
  have v: "extract_key_obligations ''The Provider shall marshall. Shall we''
     = [''The service provider must marmust'', ''Shall we'']"
    by code_simp
  have n: "\<not> contains ''shall'' ''Mar''" "\<not> contains ''shall'' ''Shall we''"
    by code_simp+
  have r: "replace ''shall'' ''must'' '' shall pay'' = '' must pay''"
    by code_simp
  from obligation_rewrites_case_sensitive [of "''The Provider shall marshall. Shall we''"]
  have all: "\<forall>entry\<in>set (extract_key_obligations ''The Provider shall marshall. Shall we''). \<not> contains ''shall'' entry"
    and occ: "\<forall>a b. \<not> contains ''shall'' a \<longrightarrow>
      replace ''shall'' ''must'' (a @ ''shall'' @ b) = a @ ''must'' @ replace ''shall'' ''must'' b"
    and absent: "\<forall>old new s. old \<noteq> [] \<and> \<not> contains old s \<longrightarrow> replace old new s = s"
    by blast+
  from all have 1: "list_all (\<lambda>entry. \<not> contains ''shall'' entry)
                      [''The service provider must marmust'', ''Shall we'']"
    unfolding v by (simp only: list_all_iff)
  from occ n(1) have 2: "replace ''shall'' ''must'' (''Mar'' @ ''shall'' @ '' shall pay'')
                           = ''Mar'' @ ''must'' @ '' must pay''"
    unfolding r [symmetric] by blast
  have ne: "''shall'' \<noteq> []" by simp
  from absent n(2) ne have 3: "replace ''shall'' ''must'' ''Shall we'' = ''Shall we''"
    by blast
  from v 1 n 2 ne 3 show ?thesis by blast
qed

section \<open>Lemmas on the readability scorer and the pipeline\<close>

lemma avg_less_iff: "0 < n \<Longrightarrow> ((of_nat w :: rat) / of_nat n < of_nat k) = (w < k * n)"
proof -
  assume n: "0 < n"
  then have "((of_nat w :: rat) / of_nat n < of_nat k) = ((of_nat w :: rat) < of_nat k * of_nat n)"
    by (simp add: pos_divide_less_eq)
  also have "\<dots> = ((of_nat w :: rat) < of_nat (k * n))" by simp
  also have "\<dots> = (w < k * n)" by (rule of_nat_less_iff)
  finally show ?thesis .
qed

lemma calculate_readability_blank:
  "nonblank_pieces text = [] \<Longrightarrow>
   calculate_readability text =
     Inr \<lparr>total_words = None, total_sentences = None, score = ''N/A'', level = ''Unable to calculate''\<rparr>"
  by (simp add: calculate_readability_def nonblank_pieces_def)

lemma calculate_readability_tier:
  assumes "nonblank_pieces text \<noteq> []"
  shows "calculate_readability text =
     Inr \<lparr>total_words = Some (length (split_ws text)),
          total_sentences = Some (length (nonblank_pieces text)),
          score = (if length (split_ws text) < 15 * length (nonblank_pieces text) then ''Good''
                   else if length (split_ws text) < 25 * length (nonblank_pieces text) then ''Fair''
                   else ''Complex''),
          level = (if length (split_ws text) < 15 * length (nonblank_pieces text) then ''Easy to read''
                   else if length (split_ws text) < 25 * length (nonblank_pieces text)
                   then ''Moderate difficulty'' else ''Difficult to read'')\<rparr>"
proof -
  let ?w = "length (split_ws text)" and ?n = "length (nonblank_pieces text)"
  from assms have n: "0 < ?n" by simp
  have a: "((of_nat ?w :: rat) / of_nat ?n < 15) = (?w < 15 * ?n)"
    using avg_less_iff [OF n, of ?w 15] by simp
  have b: "((of_nat ?w :: rat) / of_nat ?n < 25) = (?w < 25 * ?n)"
    using avg_less_iff [OF n, of ?w 25] by simp
  have t: "truediv ?w ?n = Inr (of_nat ?w / of_nat ?n)"
    using n by (simp add: truediv_def)
  show ?thesis
    using assms unfolding calculate_readability_def Let_def nonblank_pieces_def [symmetric] t
    by (simp add: a b)
qed

lemma calculate_readability_ok: "\<exists>r. calculate_readability text = Inr r"
  using calculate_readability_blank calculate_readability_tier by (cases "nonblank_pieces text = []") blast+

lemma analyze_document_structure_ok:
  "\<exists>s. analyze_document_structure text = Inr s \<and>
       sections s = sections_loop [] (split_sep [CHR 0x0A] text)"
  by (simp add: analyze_document_structure_def truediv_def Let_def)

lemma analyze_document_report:
  assumes "read_text_file e path \<noteq> []"
  shows "\<exists>r. analyze_document e path = Inr (Report r) \<and>
     key_terms r = extract_key_terms (clean_text (read_text_file e path)) \<and>
     analyze_document_structure (clean_text (read_text_file e path)) = Inr (structure_info r) \<and>
     create_simple_summary (clean_text (read_text_file e path)) = Inr (plain_language_summary r) \<and>
     key_obligations r = extract_key_obligations (clean_text (read_text_file e path)) \<and>
     risks_and_warnings r = identify_risks_and_warnings (clean_text (read_text_file e path)) \<and>
     calculate_readability (clean_text (read_text_file e path)) = Inr (readability_info r)"
proof -
  let ?c = "clean_text (read_text_file e path)"
  obtain s where s: "analyze_document_structure ?c = Inr s"
    using analyze_document_structure_ok by blast
  obtain m where m: "create_simple_summary ?c = Inr m"
    using create_simple_summary_eq by blast
  obtain rd where rd: "calculate_readability ?c = Inr rd"
    using calculate_readability_ok by blast
  show ?thesis
    using assms by (simp add: analyze_document_def Let_def s m rd)
qed

lemma newline_not_in_clean_text: "CHR 0x0A \<notin> set (clean_text text)"
proof
  assume "CHR 0x0A \<in> set (clean_text text)"
  moreover have "is_space (CHR 0x0A)" by (simp add: is_space_def)
  ultimately have "CHR 0x0A = CHR '' ''" by (rule clean_text_only_blank)
  then show False by simp
qed

lemma strip_clean_text: "strip (clean_text text) = clean_text text"
  using clean_text_ends by (intro strip_id) blast

lemma section_match_clean_text:
  "section_match (clean_text text) = starts_with_digits_dot (clean_text text)"
proof -
  have "clean_text text = [] \<or> \<not> is_space (hd (clean_text text))"
    using clean_text_ends by blast
  then have "dropWhile is_space (clean_text text) = clean_text text"
    by (simp add: dropWhile_eq_self_iff)
  then show ?thesis
    by (simp add: section_match_def starts_with_digits_dot_def Let_def)
qed

lemma sections_of_clean_text:
  "sections_loop [] (split_sep [CHR 0x0A] (clean_text text)) =
     (if starts_with_digits_dot (clean_text text) then [clean_text text] else [])"
  by (simp add: split_sep_absent newline_not_in_clean_text strip_clean_text section_match_clean_text)

section \<open>Properties of the readability scorer\<close>

text \<open>
  Claim C8: for every input whose split at the periods yields no piece that is not blank (the
  empty string, for one) the readability scorer returns the result with score
  \<^verbatim>\<open>"N/A"\<close> and level \<^verbatim>\<open>"Unable to calculate"\<close> and raises nothing; for every input with at
  least one such piece the division succeeds and the result carries the two counts and the tier
  of the average: below 15 words per sentence, below 25, or above.
\<close>

theorem calculate_readability_spec:
  "(nonblank_pieces text = [] \<longrightarrow>
      calculate_readability text =
        Inr \<lparr>total_words = None, total_sentences = None,
             score = ''N/A'', level = ''Unable to calculate''\<rparr>) \<and>
   (nonblank_pieces text \<noteq> [] \<longrightarrow>
      calculate_readability text =
        Inr \<lparr>total_words = Some (length (split_ws text)),
             total_sentences = Some (length (nonblank_pieces text)),
             score = (if length (split_ws text) < 15 * length (nonblank_pieces text) then ''Good''
                      else if length (split_ws text) < 25 * length (nonblank_pieces text) then ''Fair''
                      else ''Complex''),
             level = (if length (split_ws text) < 15 * length (nonblank_pieces text) then ''Easy to read''
                      else if length (split_ws text) < 25 * length (nonblank_pieces text)
                      then ''Moderate difficulty'' else ''Difficult to read'')\<rparr>)"
  using calculate_readability_blank calculate_readability_tier by blast

theorem calculate_readability_spec_witness:
  "nonblank_pieces [] = [] \<and>
   calculate_readability [] =
     Inr \<lparr>total_words = None, total_sentences = None,
          score = ''N/A'', level = ''Unable to calculate''\<rparr> \<and>
   nonblank_pieces '' . .. '' = [] \<and>
   calculate_readability '' . .. '' =
     Inr \<lparr>total_words = None, total_sentences = None,
          score = ''N/A'', level = ''Unable to calculate''\<rparr> \<and>
   nonblank_pieces ''One two three. Four five.'' = [''One two three'', '' Four five''] \<and>
   calculate_readability ''One two three. Four five.'' =
     Inr \<lparr>total_words = Some 5, total_sentences = Some 2,
          score = ''Good'', level = ''Easy to read''\<rparr>"
proof -
  have e: "nonblank_pieces [] = []" by code_simp
  have d: "nonblank_pieces '' . .. '' = []" by code_simp
  have p: "nonblank_pieces ''One two three. Four five.'' = [''One two three'', '' Four five'']"
    by code_simp
  have w: "length (split_ws ''One two three. Four five.'') = 5" by code_simp
  from calculate_readability_spec [of "[]"] calculate_readability_spec [of "'' . .. ''"]
       calculate_readability_spec [of "''One two three. Four five.''"]
  show ?thesis
    unfolding e d p w by simp
qed

section \<open>Properties of the analysis pipeline\<close>

text \<open>
  Claim C2 says that the analysis returns, for every input string, a report with every field.
  For the empty text it does not: \<^verbatim>\<open>analyze_document\<close> tests \<^verbatim>\<open>if not text\<close> before it
  cleans the text and returns the dictionary \<^verbatim>\<open>{"error": "Could not read the document"}\<close>,
  which has none of the fields.
\<close>

theorem analyze_document_empty_text:
  "analyze_document \<lparr>files = (\<lambda>p. Some []), now = ''2024-01-01 00:00:00''\<rparr> ''empty.txt''
     = Inr (Error ''Could not read the document'')"
  by (simp add: analyze_document_def read_text_file_def)

text \<open>
  Claim C2, amended: the analysis never raises; on every text that is not empty it returns a
  report in which every field is present and holds what the corresponding step computes on
  the cleaned text (an empty collection where the step finds nothing); on the empty text it
  returns the error dictionary.
\<close>

theorem analyze_document_total:
  "(read_text_file e path = [] \<longrightarrow>
      analyze_document e path = Inr (Error ''Could not read the document'')) \<and>
   (read_text_file e path \<noteq> [] \<longrightarrow>
      (\<exists>r. analyze_document e path = Inr (Report r) \<and>
           key_terms r = extract_key_terms (clean_text (read_text_file e path)) \<and>
           analyze_document_structure (clean_text (read_text_file e path)) = Inr (structure_info r) \<and>
           create_simple_summary (clean_text (read_text_file e path)) = Inr (plain_language_summary r) \<and>
           key_obligations r = extract_key_obligations (clean_text (read_text_file e path)) \<and>
           risks_and_warnings r = identify_risks_and_warnings (clean_text (read_text_file e path)) \<and>
           calculate_readability (clean_text (read_text_file e path)) = Inr (readability_info r)))"
proof -
  have "read_text_file e path = [] \<longrightarrow>
      analyze_document e path = Inr (Error ''Could not read the document'')"
    by (simp add: analyze_document_def)
  then show ?thesis
    using analyze_document_report [of e path] by blast
qed

theorem analyze_document_total_witness:
  "read_text_file \<lparr>files = (\<lambda>p. Some '' Hello,  world ''), now = ''2024-01-01 00:00:00''\<rparr> ''a.txt''
     = '' Hello,  world '' \<and>
   clean_text '' Hello,  world '' = ''Hello, world'' \<and>
   (\<exists>r. analyze_document \<lparr>files = (\<lambda>p. Some '' Hello,  world ''), now = ''2024-01-01 00:00:00''\<rparr> ''a.txt''
          = Inr (Report r) \<and>
        key_terms r = {} \<and> key_obligations r = [] \<and> risks_and_warnings r = [] \<and>
        plain_language_summary r = ''.'' \<and> sections (structure_info r) = [] \<and>
        level (readability_info r) = ''Easy to read'') \<and>
   read_text_file \<lparr>files = (\<lambda>p. None), now = ''2024-01-01 00:00:00''\<rparr> ''a.txt'' = [] \<and>
   analyze_document \<lparr>files = (\<lambda>p. None), now = ''2024-01-01 00:00:00''\<rparr> ''a.txt''
     = Inr (Error ''Could not read the document'')"
proof -
  let ?e = "\<lparr>files = (\<lambda>p. Some '' Hello,  world ''), now = ''2024-01-01 00:00:00''\<rparr>"
  let ?n = "\<lparr>files = (\<lambda>p. None), now = ''2024-01-01 00:00:00''\<rparr>"
  have rd: "read_text_file ?e ''a.txt'' = '' Hello,  world ''"
    by (simp add: read_text_file_def)
  have rn: "read_text_file ?n ''a.txt'' = []"
    by (simp add: read_text_file_def)
  have c: "clean_text '' Hello,  world '' = ''Hello, world''" by code_simp
  have k: "extract_key_terms ''Hello, world'' = {}" by code_simp
  have o: "extract_key_obligations ''Hello, world'' = []" by code_simp
  have r: "identify_risks_and_warnings ''Hello, world'' = []" by code_simp
  have m: "create_simple_summary ''Hello, world'' = Inr ''.''" by code_simp
  have s: "analyze_document_structure ''Hello, world''
             = Inr \<lparr>sections = [], sentence_count = 1, paragraph_count = 1, avg_sentence_length = 2\<rparr>"
    by code_simp
  have l: "calculate_readability ''Hello, world''
             = Inr \<lparr>total_words = Some 2, total_sentences = Some 1,
                    score = ''Good'', level = ''Easy to read''\<rparr>"
    by code_simp
  from analyze_document_total [of ?e "''a.txt''"]
  obtain r0 where a: "analyze_document ?e ''a.txt'' = Inr (Report r0)"
    and kt: "key_terms r0 = {}" and ko: "key_obligations r0 = []"
    and rw: "risks_and_warnings r0 = []"
    and ps: "''.'' = plain_language_summary r0"
    and st: "\<lparr>sections = [], sentence_count = 1, paragraph_count = 1, avg_sentence_length = 2\<rparr>
               = structure_info r0"
    and rl: "\<lparr>total_words = Some 2, total_sentences = Some 1,
               score = ''Good'', level = ''Easy to read''\<rparr> = readability_info r0"
    unfolding rd c k o r m s l by auto
  have "sections (structure_info r0) = []"
    using st [symmetric] by simp
  moreover have "level (readability_info r0) = ''Easy to read''"
    using rl [symmetric] by simp
  moreover note a kt ko rw ps [symmetric]
  ultimately have "\<exists>r. analyze_document ?e ''a.txt'' = Inr (Report r) \<and>
        key_terms r = {} \<and> key_obligations r = [] \<and> risks_and_warnings r = [] \<and>
        plain_language_summary r = ''.'' \<and> sections (structure_info r) = [] \<and>
        level (readability_info r) = ''Easy to read''"
    by blast
  moreover from analyze_document_total [of ?n "''a.txt''"]
  have "analyze_document ?n ''a.txt'' = Inr (Error ''Could not read the document'')"
    unfolding rn by simp
  ultimately show ?thesis
    using rd rn c by blast
qed

text \<open>
  Claim C9: the pipeline looks for sections in the cleaned text, which contains no newline.
  So in every report the section list has at most one entry, and when it has one, the whole
  cleaned text begins with digits followed by a period and is that entry.
\<close>

theorem sections_of_cleaned_text:
  "analyze_document e path = Inr (Report r) \<Longrightarrow>
   CHR 0x0A \<notin> set (clean_text (read_text_file e path)) \<and>
   length (sections (structure_info r)) \<le> 1 \<and>
   (sections (structure_info r) \<noteq> [] \<longrightarrow>
      starts_with_digits_dot (clean_text (read_text_file e path)) \<and>
      sections (structure_info r) = [clean_text (read_text_file e path)])"
proof -
  assume a: "analyze_document e path = Inr (Report r)"
  let ?c = "clean_text (read_text_file e path)"
  from a have "read_text_file e path \<noteq> []"
    by (auto simp: analyze_document_def)
  then obtain r' where r': "analyze_document e path = Inr (Report r')"
    and s': "analyze_document_structure ?c = Inr (structure_info r')"
    using analyze_document_report [of e path] by blast
  from a r' have "r' = r" by simp
  with s' have "analyze_document_structure ?c = Inr (structure_info r)" by simp
  moreover obtain s where "analyze_document_structure ?c = Inr s"
    and "sections s = sections_loop [] (split_sep [CHR 0x0A] ?c)"
    using analyze_document_structure_ok by blast
  ultimately have "sections (structure_info r) = sections_loop [] (split_sep [CHR 0x0A] ?c)"
    by simp
  then have "sections (structure_info r) = (if starts_with_digits_dot ?c then [?c] else [])"
    by (simp only: sections_of_clean_text)
  then show ?thesis
    using newline_not_in_clean_text [of "read_text_file e path"] by (simp split: if_splits)
qed

theorem sections_of_cleaned_text_witness:
  "(\<exists>r. analyze_document \<lparr>files = (\<lambda>p. Some ''12. Fees\<newline>2. Term''), now = ''2024-01-01 00:00:00''\<rparr> ''a.txt''
          = Inr (Report r) \<and>
        sections (structure_info r) = [''12. Fees 2. Term'']) \<and>
   clean_text ''12. Fees\<newline>2. Term'' = ''12. Fees 2. Term'' \<and>
   starts_with_digits_dot ''12. Fees 2. Term''"
proof -
  let ?e = "\<lparr>files = (\<lambda>p. Some ''12. Fees\<newline>2. Term''), now = ''2024-01-01 00:00:00''\<rparr>"
  have rd: "read_text_file ?e ''a.txt'' = ''12. Fees\<newline>2. Term''"
    by (simp add: read_text_file_def)
  have c: "clean_text ''12. Fees\<newline>2. Term'' = ''12. Fees 2. Term''" by code_simp
  have d: "starts_with_digits_dot ''12. Fees 2. Term''" by code_simp
  have s: "analyze_document_structure ''12. Fees 2. Term''
             = Inr \<lparr>sections = [''12. Fees 2. Term''], sentence_count = 3, paragraph_count = 1,
                    avg_sentence_length = 4 / 3\<rparr>"
    by code_simp
  obtain r where r: "analyze_document ?e ''a.txt'' = Inr (Report r)"
    and st: "analyze_document_structure (clean_text (read_text_file ?e ''a.txt''))
               = Inr (structure_info r)"
    using analyze_document_report [of ?e "''a.txt''"] unfolding rd by auto
  from st have "structure_info r
                  = \<lparr>sections = [''12. Fees 2. Term''], sentence_count = 3, paragraph_count = 1,
                       avg_sentence_length = 4 / 3\<rparr>"
    unfolding rd c s by (simp only: sum.inject)
  then have "sections (structure_info r) = [''12. Fees 2. Term'']"
    by simp
  with sections_of_cleaned_text [OF r] r c d show ?thesis
    by blast
qed

end
